theory Spec2Isabelle
  imports Complex_Main
begin

section \<open>Numbers and values\<close>

text \<open>
  The program is JavaScript. Its numbers are IEEE doubles; here a finite number is a
  \<^typ>\<open>real\<close>, so rounding, overflow to an infinity and the sign of zero are not
  represented. The client strategies (\<open>exponential.js\<close>, \<open>expectedTime.js\<close>) only
  do arithmetic on the numbers their caller passes, and are modelled over \<^typ>\<open>real\<close>
  directly: a caller-supplied \<open>NaN\<close>, a non-numeric option value and a
  \<open>coefficients\<close> object with a missing field are outside the input type of the model.
  The server (\<open>server.js\<close>) reads its constants from environment variables, which are
  strings, and coerces them itself; there the result of a coercion can be \<open>NaN\<close>, so the
  server's numbers are the type \<open>number\<close> below.
\<close>

datatype number = NaN | Num real

text \<open>A configuration constant of the server: the numeric default or an environment string.\<close>

datatype jsval = JNum number | JStr string

subsection \<open>String to number (\<open>ToNumber\<close> applied to a string)\<close>

text \<open>
  The decimal literals \<open>[+-] digits [. digits]\<close> and \<open>[+-] . digits\<close>; the empty string is
  \<open>0\<close>. Everything else is \<open>NaN\<close> here. JavaScript also reads surrounding white space,
  an exponent part, \<open>Infinity\<close> and the \<open>0x\<close>, \<open>0o\<close>, \<open>0b\<close> literals; those strings
  are not covered: every statement below that depends on the number read from a string is
  about a string of digits.
\<close>

definition is_digit :: "char \<Rightarrow> bool" where
  "is_digit ch = (48 \<le> (of_char ch :: nat) \<and> (of_char ch :: nat) \<le> 57)"

definition digits_to_nat :: "string \<Rightarrow> nat" where
  "digits_to_nat s = foldl (\<lambda>n ch. 10 * n + (of_char ch - 48)) 0 s"

definition unsigned_decimal :: "string \<Rightarrow> number" where
  "unsigned_decimal s =
     (let ip = takeWhile (\<lambda>ch. ch \<noteq> CHR ''.'') s;
          fp = tl (dropWhile (\<lambda>ch. ch \<noteq> CHR ''.'') s)
      in if list_all is_digit ip \<and> list_all is_digit fp \<and> (ip \<noteq> [] \<or> fp \<noteq> [])
         then Num (real (digits_to_nat ip) + real (digits_to_nat fp) / 10 ^ length fp)
         else NaN)"

definition num_neg :: "number \<Rightarrow> number" where
  "num_neg x = (case x of NaN \<Rightarrow> NaN | Num r \<Rightarrow> Num (- r))"

definition string_to_number :: "string \<Rightarrow> number" where
  "string_to_number s =
     (case s of
        [] \<Rightarrow> Num 0
      | ch # rest \<Rightarrow>
          if ch = CHR ''-'' then num_neg (unsigned_decimal rest)
          else if ch = CHR ''+'' then unsigned_decimal rest
          else unsigned_decimal s)"

definition ToNumber :: "jsval \<Rightarrow> number" where
  "ToNumber v = (case v of JNum x \<Rightarrow> x | JStr s \<Rightarrow> string_to_number s)"

subsection \<open>Number to string (\<open>ToString\<close> applied to a number)\<close>

text \<open>
  An integer of magnitude below \<open>10^21\<close> prints as its decimal digits, \<open>NaN\<close> as
  \<open>NaN\<close>. Every other number prints as the shortest decimal that reads back as the same
  double, which the reals do not determine: that part is the parameter \<open>fmt\<close>.
\<close>

definition digit_char :: "nat \<Rightarrow> char" where
  "digit_char d = ''0123456789'' ! d"

function nat_to_digits :: "nat \<Rightarrow> string" where
  "nat_to_digits n =
     (if n < 10 then [digit_char n]
      else nat_to_digits (n div 10) @ [digit_char (n mod 10)])"
  by pat_completeness auto
termination
  by (relation "measure (\<lambda>n. n)") auto

declare nat_to_digits.simps [simp del]

definition number_to_string :: "(real \<Rightarrow> string) \<Rightarrow> number \<Rightarrow> string" where
  "number_to_string fmt x =
     (case x of
        NaN \<Rightarrow> ''NaN''
      | Num r \<Rightarrow>
          if r = of_int \<lfloor>r\<rfloor> \<and> \<bar>r\<bar> < 10 ^ 21
          then (if r < 0 then CHR ''-'' # nat_to_digits (nat \<lfloor>- r\<rfloor>)
                else nat_to_digits (nat \<lfloor>r\<rfloor>))
          else fmt r)"

definition ToString :: "(real \<Rightarrow> string) \<Rightarrow> jsval \<Rightarrow> string" where
  "ToString fmt v = (case v of JNum x \<Rightarrow> number_to_string fmt x | JStr s \<Rightarrow> s)"

subsection \<open>Operators\<close>

definition num_add :: "number \<Rightarrow> number \<Rightarrow> number" where
  "num_add x y = (case (x, y) of (Num p, Num q) \<Rightarrow> Num (p + q) | _ \<Rightarrow> NaN)"

definition num_sub :: "number \<Rightarrow> number \<Rightarrow> number" where
  "num_sub x y = (case (x, y) of (Num p, Num q) \<Rightarrow> Num (p - q) | _ \<Rightarrow> NaN)"

definition num_mul :: "number \<Rightarrow> number \<Rightarrow> number" where
  "num_mul x y = (case (x, y) of (Num p, Num q) \<Rightarrow> Num (p * q) | _ \<Rightarrow> NaN)"

text \<open>\<open>x - y\<close>: both operands are converted to numbers.\<close>

definition js_sub :: "jsval \<Rightarrow> jsval \<Rightarrow> jsval" where
  "js_sub x y = JNum (num_sub (ToNumber x) (ToNumber y))"

text \<open>\<open>x * y\<close>: both operands are converted to numbers.\<close>

definition js_mul :: "jsval \<Rightarrow> jsval \<Rightarrow> jsval" where
  "js_mul x y = JNum (num_mul (ToNumber x) (ToNumber y))"

text \<open>\<open>x + y\<close>: addition of two numbers; when either operand is a string, the
  concatenation of both as strings.\<close>

definition js_add :: "(real \<Rightarrow> string) \<Rightarrow> jsval \<Rightarrow> jsval \<Rightarrow> jsval" where
  "js_add fmt x y =
     (case (x, y) of
        (JNum p, JNum q) \<Rightarrow> JNum (num_add p q)
      | _ \<Rightarrow> JStr (ToString fmt x @ ToString fmt y))"

text \<open>\<open>Math.floor(x)\<close>: the argument is converted to a number.\<close>

definition Math_floor :: "jsval \<Rightarrow> number" where
  "Math_floor x = (case ToNumber x of NaN \<Rightarrow> NaN | Num r \<Rightarrow> Num (of_int \<lfloor>r\<rfloor>))"

text \<open>\<open>x > y\<close> with a number on the left: the right operand is converted to a number;
  a comparison with \<open>NaN\<close> is false.\<close>

definition js_gt :: "number \<Rightarrow> jsval \<Rightarrow> bool" where
  "js_gt x y = (case (x, ToNumber y) of (Num p, Num q) \<Rightarrow> p > q | _ \<Rightarrow> False)"

text \<open>\<open>x >= y\<close> on numbers.\<close>

definition js_ge :: "number \<Rightarrow> number \<Rightarrow> bool" where
  "js_ge x y = (case (x, y) of (Num p, Num q) \<Rightarrow> p \<ge> q | _ \<Rightarrow> False)"

section \<open>The client: polling strategies\<close>

text \<open>
  Both strategies are given a client whose \<open>checkStatus(videoID)\<close> is awaited once per
  poll cycle. The call either throws (the \<open>Inl\<close> case, with the thrown error) or returns
  a status (the \<open>Inr\<close> case). The client is the environment of the loop: a run of a
  strategy is determined by the list of results its successive calls produce. A status is
  a string here; the strategies compare it with \<open>===\<close> against \<open>'completed'\<close> and
  \<open>'error'\<close> only, so a returned value that is not a string behaves as any other
  non-terminal status does.
\<close>

datatype js_error = Error string

type_synonym check_result = "js_error + string"

text \<open>How the promise returned by a strategy is settled.\<close>

datatype settlement = Resolved string | Rejected js_error

text \<open>What one execution of \<open>poll\<close> does: it settles the promise, or it arms one timer
  (\<open>setTimeout(poll, interval)\<close>) that runs \<open>poll\<close> again.\<close>

datatype cycle = Settle settlement | SetTimeout real

text \<open>
  What is observed of a run against a finite list of results: how the promise was settled
  (\<open>None\<close> while it is pending: the list ran out and the next status check has not
  returned), the delays of the timers armed, in order, and the number of status checks that
  returned or threw.
\<close>

record run =
  outcome :: "settlement option"
  waits :: "real list"
  checks :: nat

text \<open>\<open>v || d\<close> for an option that is a number or absent: \<open>0\<close> is falsy.\<close>

definition or_default :: "real option \<Rightarrow> real \<Rightarrow> real" where
  "or_default v d = (case v of None \<Rightarrow> d | Some x \<Rightarrow> if x = 0 then d else x)"

subsection \<open>\<open>exponentialStrategy\<close> (\<open>client/strategies/exponential.js\<close>)\<close>

record exp_options =
  initialInterval :: "real option"
  stableInterval :: "real option"

text \<open>
  One execution of \<open>poll\<close>. The closure variable \<open>interval\<close> is passed in and returned:
  the timer is armed with its current value and the variable is doubled afterwards, capped
  at \<open>stableInterval\<close>.
\<close>

definition exp_poll :: "real \<Rightarrow> real \<Rightarrow> check_result \<Rightarrow> cycle \<times> real" where
  "exp_poll stable_interval interval r =
     (case r of
        Inl error \<Rightarrow> (Settle (Rejected error), interval)
      | Inr s \<Rightarrow>
          if s = ''completed'' then (Settle (Resolved ''completed''), interval)
          else if s = ''error'' then
            (Settle (Rejected (Error ''Error in video translation.'')), interval)
          else (SetTimeout interval, min (interval * 2) stable_interval))"

fun exp_loop :: "real \<Rightarrow> real \<Rightarrow> check_result list \<Rightarrow> run" where
  "exp_loop stable_interval interval [] = \<lparr>outcome = None, waits = [], checks = 0\<rparr>"
| "exp_loop stable_interval interval (r # rs) =
     (case exp_poll stable_interval interval r of
        (Settle s, _) \<Rightarrow> \<lparr>outcome = Some s, waits = [], checks = 1\<rparr>
      | (SetTimeout d, interval') \<Rightarrow>
          (let rest = exp_loop stable_interval interval' rs
           in rest\<lparr>waits := d # waits rest, checks := Suc (checks rest)\<rparr>))"

definition exponentialStrategy :: "exp_options \<Rightarrow> check_result list \<Rightarrow> run" where
  "exponentialStrategy options rs =
     (let initial_interval = or_default (initialInterval options) 1000;
          stable_interval = or_default (stableInterval options) 8000
      in exp_loop stable_interval initial_interval rs)"

text \<open>The recurrence the specification gives for the backoff: the first interval is
  \<open>initial\<close>, and \<open>nextInterval(current, initial, stable) = min(current * 2, stable)\<close>.\<close>

primrec backoff_seq :: "real \<Rightarrow> real \<Rightarrow> nat \<Rightarrow> real" where
  "backoff_seq initial_interval stable_interval 0 = initial_interval"
| "backoff_seq initial_interval stable_interval (Suc n) =
     min (backoff_seq initial_interval stable_interval n * 2) stable_interval"

text \<open>A status that ends neither strategy: anything but \<open>completed\<close> and \<open>error\<close>.\<close>

definition non_terminal :: "check_result \<Rightarrow> bool" where
  "non_terminal r = (case r of Inl _ \<Rightarrow> False | Inr s \<Rightarrow> s \<noteq> ''completed'' \<and> s \<noteq> ''error'')"

subsection \<open>\<open>expectedTimeStrategy\<close> (\<open>client/strategies/expectedTime.js\<close>)\<close>

record coefficients =
  coef_a :: real
  coef_b :: real
  coef_c :: real

record et_options =
  expectedCompletionTime :: "real option"
  coefficients :: "coefficients option"
  minimumInterval :: "real option"
  maximumInterval :: "real option"
  jobStartTime :: "real option"

text \<open>The constants of the closure after destructuring with defaults.\<close>

record et_config =
  cfg_expected :: real
  cfg_coefficients :: coefficients
  cfg_minimum :: real
  cfg_maximum :: real
  cfg_start :: real

text \<open>The \<open>else\<close> branch of \<open>poll\<close>: the interval computed from the clock reading
  \<open>currentTime\<close>.\<close>

definition et_raw :: "et_config \<Rightarrow> real \<Rightarrow> real" where
  "et_raw cfg currentTime =
     (let elapsedTime = currentTime - cfg_start cfg;
          timeRemaining = max 0 (cfg_expected cfg - elapsedTime)
      in coef_a (cfg_coefficients cfg) * timeRemaining ^ 2
         + coef_b (cfg_coefficients cfg) * timeRemaining
         + coef_c (cfg_coefficients cfg))"

definition et_interval :: "et_config \<Rightarrow> real \<Rightarrow> real" where
  "et_interval cfg currentTime =
     max (cfg_minimum cfg) (min (et_raw cfg currentTime) (cfg_maximum cfg))"

text \<open>One execution of \<open>poll\<close>; \<open>currentTime\<close> is what \<open>Date.now()\<close> returns in it.\<close>

definition et_poll :: "et_config \<Rightarrow> check_result \<times> real \<Rightarrow> cycle" where
  "et_poll cfg rt =
     (case rt of
        (Inl error, _) \<Rightarrow> Settle (Rejected error)
      | (Inr s, currentTime) \<Rightarrow>
          if s = ''completed'' then Settle (Resolved ''completed'')
          else if s = ''error'' then Settle (Rejected (Error ''Error in video translation.''))
          else SetTimeout (et_interval cfg currentTime))"

fun et_loop :: "et_config \<Rightarrow> (check_result \<times> real) list \<Rightarrow> run" where
  "et_loop cfg [] = \<lparr>outcome = None, waits = [], checks = 0\<rparr>"
| "et_loop cfg (rt # rts) =
     (case et_poll cfg rt of
        Settle s \<Rightarrow> \<lparr>outcome = Some s, waits = [], checks = 1\<rparr>
      | SetTimeout d \<Rightarrow>
          (let rest = et_loop cfg rts
           in rest\<lparr>waits := d # waits rest, checks := Suc (checks rest)\<rparr>))"

text \<open>
  \<open>callTime\<close> is \<open>Date.now()\<close> at the call, the default of \<open>jobStartTime\<close>. The
  \<open>throw\<close> of the async function rejects the promise it returns; \<open>!expectedCompletionTime\<close>
  holds when the option is absent and when it is \<open>0\<close>.
\<close>

definition expectedTimeStrategy ::
  "et_options \<Rightarrow> real \<Rightarrow> (check_result \<times> real) list \<Rightarrow> run" where
  "expectedTimeStrategy options callTime rts =
     (let coefs = (case coefficients options of
                     None \<Rightarrow> \<lparr>coef_a = 1 / 30000, coef_b = 0.01, coef_c = 500\<rparr>
                   | Some k \<Rightarrow> k);
          minimum = (case minimumInterval options of None \<Rightarrow> 500 | Some x \<Rightarrow> x);
          maximum = (case maximumInterval options of None \<Rightarrow> 3000 | Some x \<Rightarrow> x);
          start = (case jobStartTime options of None \<Rightarrow> callTime | Some x \<Rightarrow> x)
      in case expectedCompletionTime options of
           None \<Rightarrow>
             \<lparr>outcome = Some (Rejected (Error ''Expected completion time must be provided.'')),
              waits = [], checks = 0\<rparr>
         | Some e \<Rightarrow>
             if e = 0 then
               \<lparr>outcome = Some (Rejected (Error ''Expected completion time must be provided.'')),
                waits = [], checks = 0\<rparr>
             else et_loop \<lparr>cfg_expected = e, cfg_coefficients = coefs, cfg_minimum = minimum,
                           cfg_maximum = maximum, cfg_start = start\<rparr> rts)"

text \<open>The usual reading of \<open>clamp(x, lo, hi)\<close>.\<close>

definition clamp :: "real \<Rightarrow> real \<Rightarrow> real \<Rightarrow> real" where
  "clamp x lo hi = (if x < lo then lo else if hi < x then hi else x)"

section \<open>The server (\<open>server.js\<close>)\<close>

subsection \<open>Configuration\<close>

text \<open>The environment variables the module reads; an unset variable is \<open>None\<close>.\<close>

record environment =
  env_MIN_DELAY :: "string option"
  env_MAX_DELAY :: "string option"
  env_ERROR_RATE :: "string option"

text \<open>\<open>process.env.X || d\<close>: an unset variable and the empty string are falsy; every
  other string, \<open>"0"\<close> included, is truthy and is kept as a string.\<close>

definition env_or :: "string option \<Rightarrow> real \<Rightarrow> jsval" where
  "env_or v d = (case v of None \<Rightarrow> JNum (Num d) | Some s \<Rightarrow> if s = [] then JNum (Num d) else JStr s)"

record config =
  MIN_DELAY :: jsval
  MAX_DELAY :: jsval
  ERROR_RATE :: jsval

definition load_config :: "environment \<Rightarrow> config" where
  "load_config env =
     \<lparr>MIN_DELAY = env_or (env_MIN_DELAY env) 5000,
      MAX_DELAY = env_or (env_MAX_DELAY env) 50000,
      ERROR_RATE = env_or (env_ERROR_RATE env) 0.03\<rparr>"

subsection \<open>The store \<open>videos\<close>\<close>

record video =
  startTime :: real
  delay :: number
  status :: string

type_synonym videos = "string \<rightharpoonup> video"

text \<open>
  \<open>videos\<close> is a plain object literal, so \<open>videos[videoID]\<close> also finds the properties
  it inherits from \<open>Object.prototype\<close>; all of them are truthy and none has a
  \<open>startTime\<close>, \<open>delay\<close> or \<open>status\<close>.
\<close>

definition Object_prototype :: "string list" where
  "Object_prototype =
     [''constructor'', ''__proto__'', ''hasOwnProperty'', ''isPrototypeOf'',
      ''propertyIsEnumerable'', ''toLocaleString'', ''toString'', ''valueOf'',
      ''__defineGetter__'', ''__defineSetter__'', ''__lookupGetter__'', ''__lookupSetter__'']"

datatype property = Own video | Inherited | Undefined

definition videos_get :: "videos \<Rightarrow> string \<Rightarrow> property" where
  "videos_get vs videoID =
     (case vs videoID of
        Some v \<Rightarrow> Own v
      | None \<Rightarrow> if videoID \<in> set Object_prototype then Inherited else Undefined)"

subsection \<open>The handlers\<close>

datatype response =
    Created string string
  | BadRequest string
  | NotFound string
  | StatusResult "string option"

text \<open>\<open>Math.floor(Math.random() * (MAX_DELAY - MIN_DELAY + 1) + MIN_DELAY)\<close>, for the
  value \<open>random\<close> of \<open>Math.random()\<close>.\<close>

definition draw_delay :: "(real \<Rightarrow> string) \<Rightarrow> config \<Rightarrow> real \<Rightarrow> number" where
  "draw_delay fmt cfg random =
     Math_floor
       (js_add fmt
          (js_mul (JNum (Num random))
             (js_add fmt (js_sub (MAX_DELAY cfg) (MIN_DELAY cfg)) (JNum (Num 1))))
          (MIN_DELAY cfg))"

text \<open>\<open>Math.random() > ERROR_RATE ? 'pending' : 'error'\<close>.\<close>

definition draw_status :: "config \<Rightarrow> real \<Rightarrow> string" where
  "draw_status cfg random = (if js_gt (Num random) (ERROR_RATE cfg) then ''pending'' else ''error'')"

definition duplicate_message :: "string \<Rightarrow> string" where
  "duplicate_message videoID =
     ''VideoID '' @ [CHR 0x27] @ videoID @ [CHR 0x27]
       @ '' already exists. Please choose a different ID.''"

definition created_message :: "string \<Rightarrow> string" where
  "created_message videoID =
     ''Video translation added. Check status using /status?videoID='' @ videoID"

text \<open>
  \<open>POST /create\<close>. \<open>body_videoID\<close> is \<open>req.body?.videoID\<close> (a string, or absent);
  \<open>random1\<close> and \<open>random2\<close> are the two values of \<open>Math.random()\<close>, in the order
  drawn; \<open>now\<close> is \<open>Date.now()\<close>.
\<close>

definition post_create ::
  "(real \<Rightarrow> string) \<Rightarrow> config \<Rightarrow> videos \<Rightarrow> string option \<Rightarrow> real \<Rightarrow> real \<Rightarrow> real
     \<Rightarrow> response \<times> videos" where
  "post_create fmt cfg vs body_videoID random1 random2 now =
     (case body_videoID of
        None \<Rightarrow> (BadRequest ''videoID is required in the request body'', vs)
      | Some videoID \<Rightarrow>
          if videoID = [] then (BadRequest ''videoID is required in the request body'', vs)
          else
            (let d = draw_delay fmt cfg random1;
                 s = draw_status cfg random2
             in if videos_get vs videoID \<noteq> Undefined
                then (BadRequest (duplicate_message videoID), vs)
                else (Created videoID (created_message videoID),
                      vs(videoID \<mapsto> \<lparr>startTime = now, delay = d, status = s\<rparr>))))"

text \<open>\<open>GET /status\<close>. \<open>query_videoID\<close> is \<open>req.query.videoID\<close>; \<open>now\<close> is
  \<open>Date.now()\<close>.\<close>

definition get_status :: "videos \<Rightarrow> string option \<Rightarrow> real \<Rightarrow> response \<times> videos" where
  "get_status vs query_videoID now =
     (case query_videoID of
        None \<Rightarrow> (NotFound ''Video not found'', vs)
      | Some videoID \<Rightarrow>
          if videoID = [] then (NotFound ''Video not found'', vs)
          else
            (case videos_get vs videoID of
               Undefined \<Rightarrow> (NotFound ''Video not found'', vs)
             | Inherited \<Rightarrow> (StatusResult None, vs)
             | Own v \<Rightarrow>
                 (let elapsedTime = now - startTime v;
                      v' = (if js_ge (Num elapsedTime) (delay v) \<and> status v = ''pending''
                            then v\<lparr>status := ''completed''\<rparr> else v)
                  in (StatusResult (Some (status v')), vs(videoID \<mapsto> v')))))"

subsection \<open>Sequences of requests\<close>

datatype request =
    PostCreate "string option" real real real
  | GetStatus "string option" real

fun handle :: "(real \<Rightarrow> string) \<Rightarrow> config \<Rightarrow> videos \<Rightarrow> request \<Rightarrow> response \<times> videos" where
  "handle fmt cfg vs (PostCreate body_videoID random1 random2 now) =
     post_create fmt cfg vs body_videoID random1 random2 now"
| "handle fmt cfg vs (GetStatus query_videoID now) = get_status vs query_videoID now"

fun serve :: "(real \<Rightarrow> string) \<Rightarrow> config \<Rightarrow> videos \<Rightarrow> request list \<Rightarrow> response list \<times> videos" where
  "serve fmt cfg vs [] = ([], vs)"
| "serve fmt cfg vs (q # qs) =
     (let (r, vs') = handle fmt cfg vs q;
          (rs, vs'') = serve fmt cfg vs' qs
      in (r # rs, vs''))"

text \<open>The stores the server can be in: \<open>videos\<close> starts as \<open>{}\<close> and is only changed by
  the two handlers.\<close>

inductive reachable :: "(real \<Rightarrow> string) \<Rightarrow> config \<Rightarrow> videos \<Rightarrow> bool"
  for fmt :: "real \<Rightarrow> string" and cfg :: config where
  initial: "reachable fmt cfg Map.empty"
| request: "reachable fmt cfg vs \<Longrightarrow> handle fmt cfg vs q = (r, vs') \<Longrightarrow> reachable fmt cfg vs'"

text \<open>
  What a request sequence does to one job. \<open>due_check videoID v q\<close> holds when \<open>q\<close> is a
  status check for \<open>videoID\<close> made at a time when the job \<open>v\<close> is due
  (\<open>elapsedTime >= delay\<close>); \<open>polled_when_due\<close> holds when the sequence contains such a
  check. \<open>request_time\<close> is the clock reading of a request.
\<close>

definition due_check :: "string \<Rightarrow> video \<Rightarrow> request \<Rightarrow> bool" where
  "due_check videoID v q =
     (case q of
        GetStatus (Some i) now \<Rightarrow> i = videoID \<and> js_ge (Num (now - startTime v)) (delay v)
      | _ \<Rightarrow> False)"

definition polled_when_due :: "string \<Rightarrow> video \<Rightarrow> request list \<Rightarrow> bool" where
  "polled_when_due videoID v qs = list_ex (due_check videoID v) qs"

fun request_time :: "request \<Rightarrow> real" where
  "request_time (PostCreate body_videoID random1 random2 now) = now"
| "request_time (GetStatus query_videoID now) = now"

section \<open>Properties of the exponential backoff\<close>

lemma backoff_seq_shift:
  "backoff_seq (min (i * 2) s) s n = backoff_seq i s (Suc n)"
  by (induction n) simp_all

lemma exp_loop_non_terminal:
  "non_terminal r \<Longrightarrow>
   exp_loop s i (r # rs) =
     (let rest = exp_loop s (min (i * 2) s) rs
      in rest\<lparr>waits := i # waits rest, checks := Suc (checks rest)\<rparr>)"
  by (cases r) (simp_all add: non_terminal_def exp_poll_def)

lemma exp_loop_waits:
  "list_all non_terminal rs \<Longrightarrow>
   waits (exp_loop s i rs) = map (backoff_seq i s) [0..<length rs]"
proof (induction rs arbitrary: i)
  case Nil
  then show ?case by simp
next
  case (Cons r rs)
  then have nt: "non_terminal r" and rest: "list_all non_terminal rs" by simp_all
  have "waits (exp_loop s i (r # rs)) = i # waits (exp_loop s (min (i * 2) s) rs)"
    by (simp add: exp_loop_non_terminal [OF nt] Let_def del: exp_loop.simps)
  also have "\<dots> = i # map (backoff_seq (min (i * 2) s) s) [0..<length rs]"
    using Cons.IH [OF rest] by simp
  also have "\<dots> = backoff_seq i s 0 # map (\<lambda>n. backoff_seq i s (Suc n)) [0..<length rs]"
    by (simp add: backoff_seq_shift)
  also have "\<dots> = map (backoff_seq i s) [0..<length (r # rs)]"
    by (simp add: upt_conv_Cons map_Suc_upt [symmetric] del: upt_Suc)
  finally show ?case .
qed

lemma backoff_seq_bounds:
  "0 \<le> i \<Longrightarrow> i \<le> s \<Longrightarrow> 0 \<le> backoff_seq i s n \<and> backoff_seq i s n \<le> s"
  by (induction n) auto

lemma backoff_seq_step:
  assumes "0 \<le> i" "i \<le> s"
  shows "backoff_seq i s n \<le> backoff_seq i s (Suc n)"
  using backoff_seq_bounds [OF assms, of n] by simp

lemma backoff_seq_mono:
  assumes "0 \<le> i" "i \<le> s" "m \<le> n"
  shows "backoff_seq i s m \<le> backoff_seq i s n"
  by (rule lift_Suc_mono_le [of "backoff_seq i s", OF backoff_seq_step [OF assms(1,2)] assms(3)])

lemma sorted_backoff:
  assumes "0 \<le> i" "i \<le> s"
  shows "sorted (map (backoff_seq i s) [0..<n])"
  by (auto simp: sorted_iff_nth_mono intro: backoff_seq_mono [OF assms])

text \<open>
  Claim C1, as amended. While the status checks return non-terminal statuses, the delays
  of the timers \<open>exponentialStrategy\<close> arms follow the recurrence: the first is the
  initial interval and each next one is \<open>min(previous * 2, stable)\<close>, where the initial and
  the stable interval are the options after defaulting (absent or \<open>0\<close> gives \<open>1000\<close> and
  \<open>8000\<close>). When \<open>0 \<le> initial \<le> stable\<close>, the sequence is non-decreasing and never
  exceeds the stable interval.
\<close>

theorem exponential_intervals:
  assumes "list_all non_terminal rs"
  shows "let i = or_default (initialInterval opts) 1000;
             s = or_default (stableInterval opts) 8000;
             ws = waits (exponentialStrategy opts rs)
         in ws = map (backoff_seq i s) [0..<length rs] \<and>
            (0 \<le> i \<and> i \<le> s \<longrightarrow> sorted ws \<and> (\<forall>w \<in> set ws. w \<le> s))"
proof -
  define i where "i = or_default (initialInterval opts) 1000"
  define s where "s = or_default (stableInterval opts) 8000"
  have ws: "waits (exponentialStrategy opts rs) = map (backoff_seq i s) [0..<length rs]"
    unfolding exponentialStrategy_def Let_def i_def s_def
    by (rule exp_loop_waits [OF assms])
  have "sorted (map (backoff_seq i s) [0..<length rs])" if "0 \<le> i" "i \<le> s"
    by (rule sorted_backoff [OF that])
  moreover have "\<forall>w \<in> set (map (backoff_seq i s) [0..<length rs]). w \<le> s"
    if "0 \<le> i" "i \<le> s"
    using backoff_seq_bounds [OF that] by auto
  ultimately show ?thesis
    unfolding Let_def i_def [symmetric] s_def [symmetric] ws by blast
qed

text \<open>The sequence of the specification's example: \<open>1000, 2000, 4000, 8000, 8000\<close>.\<close>

theorem exponential_intervals_witness:
  "waits (exponentialStrategy \<lparr>initialInterval = Some 1000, stableInterval = Some 8000\<rparr>
      [Inr ''pending'', Inr ''pending'', Inr ''pending'', Inr ''pending'', Inr ''pending''])
     = [1000, 2000, 4000, 8000, 8000]
   \<and> sorted [1000, 2000, 4000, 8000, 8000 :: real]"
proof -
  have h: "list_all non_terminal
    [Inr ''pending'', Inr ''pending'', Inr ''pending'', Inr ''pending'', Inr ''pending'']"
    by (simp add: non_terminal_def)
  show ?thesis
    using exponential_intervals [OF h,
        of "\<lparr>initialInterval = Some 1000, stableInterval = Some 8000\<rparr>"]
    by (simp add: or_default_def Let_def upt_rec)
qed

text \<open>
  Without \<open>initial \<le> stable\<close> the claim fails: with \<open>initialInterval = 1000\<close> and
  \<open>stableInterval = 500\<close> the first wait exceeds the stable interval and the second is
  shorter than the first.
\<close>

theorem exponential_intervals_counterexample:
  "waits (exponentialStrategy \<lparr>initialInterval = Some 1000, stableInterval = Some 500\<rparr>
      [Inr ''pending'', Inr ''pending'']) = [1000, 500]
   \<and> \<not> sorted [1000, 500 :: real] \<and> \<not> (1000 :: real) \<le> 500"
  by (simp add: exponentialStrategy_def or_default_def exp_poll_def Let_def)

section \<open>Properties of the expected-time strategy\<close>

lemma expectedTimeStrategy_loop:
  assumes "expectedCompletionTime options = Some e" "e \<noteq> 0"
  shows "expectedTimeStrategy options callTime rts =
     et_loop
       \<lparr>cfg_expected = e,
        cfg_coefficients = (case coefficients options of
                              None \<Rightarrow> \<lparr>coef_a = 1 / 30000, coef_b = 0.01, coef_c = 500\<rparr>
                            | Some k \<Rightarrow> k),
        cfg_minimum = (case minimumInterval options of None \<Rightarrow> 500 | Some x \<Rightarrow> x),
        cfg_maximum = (case maximumInterval options of None \<Rightarrow> 3000 | Some x \<Rightarrow> x),
        cfg_start = (case jobStartTime options of None \<Rightarrow> callTime | Some x \<Rightarrow> x)\<rparr> rts"
  using assms by (simp add: expectedTimeStrategy_def Let_def)

lemma et_poll_non_terminal:
  "non_terminal (Inr s) \<Longrightarrow> et_poll cfg (Inr s, now) = SetTimeout (et_interval cfg now)"
  by (simp add: non_terminal_def et_poll_def)

text \<open>
  Claim C2, as amended. In a poll cycle whose status is not terminal,
  \<open>expectedTimeStrategy\<close> arms its timer with
  \<open>max(minimumInterval, min(raw, maximumInterval))\<close>, where
  \<open>timeRemaining = max(0, expectedCompletionTime - elapsed)\<close>,
  \<open>elapsed = now - jobStartTime\<close> and
  \<open>raw = a * timeRemaining^2 + b * timeRemaining + c\<close>. When
  \<open>minimumInterval \<le> maximumInterval\<close> this is \<open>clamp(raw, minimumInterval, maximumInterval)\<close>
  and lies between the two bounds. A \<open>raw\<close> at or below \<open>minimumInterval\<close> gives exactly
  \<open>minimumInterval\<close>; a negative \<open>raw\<close> does so when \<open>minimumInterval\<close> is not negative.
\<close>

theorem predictive_interval:
  assumes "non_terminal (Inr s)"
  shows "let timeRemaining = max 0 (cfg_expected cfg - (now - cfg_start cfg));
             raw = coef_a (cfg_coefficients cfg) * timeRemaining ^ 2
                   + coef_b (cfg_coefficients cfg) * timeRemaining
                   + coef_c (cfg_coefficients cfg);
             lo = cfg_minimum cfg;
             hi = cfg_maximum cfg
         in \<exists>iv. et_poll cfg (Inr s, now) = SetTimeout iv \<and>
              iv = max lo (min raw hi) \<and>
              (lo \<le> hi \<longrightarrow> iv = clamp raw lo hi \<and> lo \<le> iv \<and> iv \<le> hi) \<and>
              (raw \<le> lo \<longrightarrow> iv = lo) \<and>
              (raw < 0 \<and> 0 \<le> lo \<longrightarrow> iv = lo)"
proof -
  have "et_poll cfg (Inr s, now) = SetTimeout (et_interval cfg now)"
    by (rule et_poll_non_terminal [OF assms])
  then show ?thesis
    by (auto simp: Let_def et_interval_def et_raw_def clamp_def max_def min_def)
qed

text \<open>The specification's example at \<open>elapsed = 0\<close>: the raw value \<open>30800\<close> is clamped to
  \<open>3000\<close>. With the coefficients \<open>(0, 0, -5)\<close> the raw value \<open>-5\<close> is clamped to the
  minimum \<open>500\<close>.\<close>

theorem predictive_interval_witness:
  "et_poll \<lparr>cfg_expected = 30000,
            cfg_coefficients = \<lparr>coef_a = 1 / 30000, coef_b = 0.01, coef_c = 500\<rparr>,
            cfg_minimum = 500, cfg_maximum = 3000, cfg_start = 0\<rparr> (Inr ''pending'', 0)
     = SetTimeout 3000
   \<and> et_poll \<lparr>cfg_expected = 30000,
            cfg_coefficients = \<lparr>coef_a = 0, coef_b = 0, coef_c = - 5\<rparr>,
            cfg_minimum = 500, cfg_maximum = 3000, cfg_start = 0\<rparr> (Inr ''pending'', 0)
     = SetTimeout 500"
proof -
  have h: "non_terminal (Inr ''pending'')"
    by (simp add: non_terminal_def)
  have "et_poll \<lparr>cfg_expected = 30000,
            cfg_coefficients = \<lparr>coef_a = 1 / 30000, coef_b = 0.01, coef_c = 500\<rparr>,
            cfg_minimum = 500, cfg_maximum = 3000, cfg_start = 0\<rparr> (Inr ''pending'', 0)
     = SetTimeout 3000"
    using predictive_interval [OF h, of "\<lparr>cfg_expected = 30000,
            cfg_coefficients = \<lparr>coef_a = 1 / 30000, coef_b = 0.01, coef_c = 500\<rparr>,
            cfg_minimum = 500, cfg_maximum = 3000, cfg_start = 0\<rparr>" 0]
    by (simp add: Let_def)
  moreover have "et_poll \<lparr>cfg_expected = 30000,
            cfg_coefficients = \<lparr>coef_a = 0, coef_b = 0, coef_c = - 5\<rparr>,
            cfg_minimum = 500, cfg_maximum = 3000, cfg_start = 0\<rparr> (Inr ''pending'', 0)
     = SetTimeout 500"
    using predictive_interval [OF h, of "\<lparr>cfg_expected = 30000,
            cfg_coefficients = \<lparr>coef_a = 0, coef_b = 0, coef_c = - 5\<rparr>,
            cfg_minimum = 500, cfg_maximum = 3000, cfg_start = 0\<rparr>" 0]
    by (simp add: Let_def)
  ultimately show ?thesis by simp
qed

text \<open>
  A negative \<open>raw\<close> does not always give \<open>minimumInterval\<close>: with
  \<open>minimumInterval = -10\<close>, \<open>maximumInterval = 3000\<close> and coefficients \<open>(0, 0, -5)\<close> the
  raw value is \<open>-5\<close> and the timer is armed with \<open>-5\<close>, not \<open>-10\<close>.
\<close>

theorem predictive_interval_counterexample:
  "waits (expectedTimeStrategy
            \<lparr>expectedCompletionTime = Some 30000,
             coefficients = Some \<lparr>coef_a = 0, coef_b = 0, coef_c = - 5\<rparr>,
             minimumInterval = Some (- 10), maximumInterval = Some 3000,
             jobStartTime = Some 0\<rparr> 0 [(Inr ''pending'', 0)]) = [- 5]
   \<and> et_raw \<lparr>cfg_expected = 30000,
             cfg_coefficients = \<lparr>coef_a = 0, coef_b = 0, coef_c = - 5\<rparr>,
             cfg_minimum = - 10, cfg_maximum = 3000, cfg_start = 0\<rparr> 0 = - 5
   \<and> (- 10 :: real) \<le> 3000 \<and> (- 5 :: real) \<noteq> - 10"
  by (simp add: expectedTimeStrategy_def et_poll_def et_interval_def et_raw_def)

lemma et_raw_antimono:
  assumes "0 \<le> coef_a (cfg_coefficients cfg)" "0 \<le> coef_b (cfg_coefficients cfg)" "t1 \<le> t2"
  shows "et_raw cfg t2 \<le> et_raw cfg t1"
proof -
  define r1 where "r1 = max 0 (cfg_expected cfg - (t1 - cfg_start cfg))"
  define r2 where "r2 = max 0 (cfg_expected cfg - (t2 - cfg_start cfg))"
  have r: "0 \<le> r2" "r2 \<le> r1"
    using assms(3) by (simp_all add: r1_def r2_def max_def)
  have sq: "r2 ^ 2 \<le> r1 ^ 2"
    using r by (simp add: power_mono)
  have "coef_a (cfg_coefficients cfg) * r2 ^ 2 \<le> coef_a (cfg_coefficients cfg) * r1 ^ 2"
    using assms(1) sq by (rule mult_left_mono [rotated])
  moreover have "coef_b (cfg_coefficients cfg) * r2 \<le> coef_b (cfg_coefficients cfg) * r1"
    using assms(2) r(2) by (rule mult_left_mono [rotated])
  ultimately show ?thesis
    by (simp add: et_raw_def Let_def r1_def r2_def)
qed

lemma et_raw_after_deadline:
  "cfg_expected cfg \<le> now - cfg_start cfg \<Longrightarrow> et_raw cfg now = coef_c (cfg_coefficients cfg)"
  by (simp add: et_raw_def Let_def max_def)

text \<open>
  Claim C3, as amended. With non-negative \<open>a\<close> and \<open>b\<close> the interval is non-increasing
  in the clock reading: a later poll never waits longer. Once
  \<open>elapsed \<ge> expectedCompletionTime\<close> the interval is the constant
  \<open>max(minimumInterval, min(c, maximumInterval))\<close>, the same at every later time; it is
  \<open>minimumInterval\<close> when \<open>c \<le> minimumInterval\<close>.
\<close>

theorem predictive_monotone:
  "(0 \<le> coef_a (cfg_coefficients cfg) \<and> 0 \<le> coef_b (cfg_coefficients cfg) \<and> t1 \<le> t2
      \<longrightarrow> et_interval cfg t2 \<le> et_interval cfg t1)
   \<and> (cfg_expected cfg \<le> now - cfg_start cfg
      \<longrightarrow> et_interval cfg now
            = max (cfg_minimum cfg) (min (coef_c (cfg_coefficients cfg)) (cfg_maximum cfg)))
   \<and> (cfg_expected cfg \<le> now - cfg_start cfg \<and> coef_c (cfg_coefficients cfg) \<le> cfg_minimum cfg
      \<longrightarrow> et_interval cfg now = cfg_minimum cfg)"
proof (intro conjI impI)
  assume "0 \<le> coef_a (cfg_coefficients cfg) \<and> 0 \<le> coef_b (cfg_coefficients cfg) \<and> t1 \<le> t2"
  then have "et_raw cfg t2 \<le> et_raw cfg t1"
    by (simp add: et_raw_antimono)
  then show "et_interval cfg t2 \<le> et_interval cfg t1"
    by (simp add: et_interval_def max_def min_def)
next
  assume "cfg_expected cfg \<le> now - cfg_start cfg"
  then show "et_interval cfg now
      = max (cfg_minimum cfg) (min (coef_c (cfg_coefficients cfg)) (cfg_maximum cfg))"
    by (simp add: et_interval_def et_raw_after_deadline)
next
  assume "cfg_expected cfg \<le> now - cfg_start cfg \<and> coef_c (cfg_coefficients cfg) \<le> cfg_minimum cfg"
  then show "et_interval cfg now = cfg_minimum cfg"
    by (simp add: et_interval_def et_raw_after_deadline max_def min_def)
qed

text \<open>The specification's example (\<open>c = 500\<close>): the interval at the deadline is \<open>500\<close> and
  is not above the interval at the start.\<close>

theorem predictive_monotone_witness:
  "et_interval \<lparr>cfg_expected = 30000,
            cfg_coefficients = \<lparr>coef_a = 1 / 30000, coef_b = 0.01, coef_c = 500\<rparr>,
            cfg_minimum = 500, cfg_maximum = 3000, cfg_start = 0\<rparr> 30000
     \<le> et_interval \<lparr>cfg_expected = 30000,
            cfg_coefficients = \<lparr>coef_a = 1 / 30000, coef_b = 0.01, coef_c = 500\<rparr>,
            cfg_minimum = 500, cfg_maximum = 3000, cfg_start = 0\<rparr> 0
   \<and> et_interval \<lparr>cfg_expected = 30000,
            cfg_coefficients = \<lparr>coef_a = 1 / 30000, coef_b = 0.01, coef_c = 500\<rparr>,
            cfg_minimum = 500, cfg_maximum = 3000, cfg_start = 0\<rparr> 30000 = 500"
  using predictive_monotone [of "\<lparr>cfg_expected = 30000,
            cfg_coefficients = \<lparr>coef_a = 1 / 30000, coef_b = 0.01, coef_c = 500\<rparr>,
            cfg_minimum = 500, cfg_maximum = 3000, cfg_start = 0\<rparr>" 0 30000 30000]
  by simp

text \<open>
  With the coefficients of the repository's own test (\<open>c = 1000\<close>,
  \<open>minimumInterval = 500\<close>) the interval at the deadline is \<open>1000\<close>, not
  \<open>minimumInterval\<close>.
\<close>

theorem predictive_monotone_counterexample:
  "waits (expectedTimeStrategy
            \<lparr>expectedCompletionTime = Some 30000,
             coefficients = Some \<lparr>coef_a = 1 / 30000, coef_b = 0.01, coef_c = 1000\<rparr>,
             minimumInterval = Some 500, maximumInterval = Some 3000,
             jobStartTime = Some 0\<rparr> 0 [(Inr ''pending'', 30000)]) = [1000]
   \<and> (1000 :: real) \<noteq> 500"
  by (simp add: expectedTimeStrategy_def et_poll_def et_interval_def et_raw_def)

section \<open>Properties of the poll loop of both strategies\<close>

lemma et_loop_non_terminal:
  "non_terminal r \<Longrightarrow>
   et_loop cfg ((r, now) # rts) =
     (let rest = et_loop cfg rts
      in rest\<lparr>waits := et_interval cfg now # waits rest, checks := Suc (checks rest)\<rparr>)"
  by (cases r) (simp_all add: non_terminal_def et_poll_def)

text \<open>
  Claim C4. In either strategy, a poll cycle whose status check returns \<open>completed\<close>
  resolves the promise with \<open>completed\<close>, and one whose check returns \<open>error\<close> rejects it
  with the error \<open>Error in video translation.\<close>; in both cases no timer is armed and no
  later result is read. A cycle whose check returns any other status leaves the promise
  pending and arms exactly one timer, with the current interval (exponential, which then
  doubles up to the stable interval) or with the interval computed from the clock
  (expected time); the rest of the run is the run of the next cycle.
\<close>

theorem poll_cycle_outcomes:
  "exp_loop stable_interval interval (Inr ''completed'' # rs)
     = \<lparr>outcome = Some (Resolved ''completed''), waits = [], checks = 1\<rparr>
   \<and> et_loop cfg ((Inr ''completed'', now) # rts)
     = \<lparr>outcome = Some (Resolved ''completed''), waits = [], checks = 1\<rparr>
   \<and> exp_loop stable_interval interval (Inr ''error'' # rs)
     = \<lparr>outcome = Some (Rejected (Error ''Error in video translation.'')),
        waits = [], checks = 1\<rparr>
   \<and> et_loop cfg ((Inr ''error'', now) # rts)
     = \<lparr>outcome = Some (Rejected (Error ''Error in video translation.'')),
        waits = [], checks = 1\<rparr>
   \<and> (non_terminal (Inr s) \<longrightarrow>
        exp_poll stable_interval interval (Inr s)
          = (SetTimeout interval, min (interval * 2) stable_interval)
        \<and> exp_loop stable_interval interval [Inr s]
          = \<lparr>outcome = None, waits = [interval], checks = 1\<rparr>
        \<and> exp_loop stable_interval interval (Inr s # rs)
          = (let rest = exp_loop stable_interval (min (interval * 2) stable_interval) rs
             in \<lparr>outcome = outcome rest, waits = interval # waits rest,
                 checks = Suc (checks rest)\<rparr>)
        \<and> et_poll cfg (Inr s, now) = SetTimeout (et_interval cfg now)
        \<and> et_loop cfg [(Inr s, now)]
          = \<lparr>outcome = None, waits = [et_interval cfg now], checks = 1\<rparr>
        \<and> et_loop cfg ((Inr s, now) # rts)
          = (let rest = et_loop cfg rts
             in \<lparr>outcome = outcome rest, waits = et_interval cfg now # waits rest,
                 checks = Suc (checks rest)\<rparr>))"
  by (simp add: exp_poll_def et_poll_def non_terminal_def Let_def)

theorem poll_cycle_outcomes_witness:
  "exp_loop 8000 1000 [Inr ''pending'']
     = \<lparr>outcome = None, waits = [1000], checks = 1\<rparr>
   \<and> exp_loop 8000 1000 [Inr ''pending'', Inr ''completed'']
     = \<lparr>outcome = Some (Resolved ''completed''), waits = [1000], checks = 2\<rparr>"
proof -
  have h: "non_terminal (Inr ''pending'')"
    by (simp add: non_terminal_def)
  have c: "exp_loop 8000 2000 [Inr ''completed'']
      = \<lparr>outcome = Some (Resolved ''completed''), waits = [], checks = 1\<rparr>"
    using poll_cycle_outcomes [of 8000 2000 "[]"] by simp
  show ?thesis
    using poll_cycle_outcomes [of 8000 1000 "[Inr ''completed'']" _ _ _ "''pending''"] h c
    by (simp add: Let_def)
qed

lemma exp_loop_failure:
  "list_all non_terminal pre \<Longrightarrow>
   exp_loop st i (pre @ Inl e # rs)
     = \<lparr>outcome = Some (Rejected e), waits = waits (exp_loop st i pre),
        checks = Suc (length pre)\<rparr>"
proof (induction pre arbitrary: i)
  case Nil
  show ?case by (simp add: exp_poll_def)
next
  case (Cons r pre)
  then have nt: "non_terminal r" and rest: "list_all non_terminal pre" by simp_all
  show ?case
    using Cons.IH [OF rest, of "min (i * 2) st"] exp_loop_non_terminal [OF nt, of st i]
    by (simp add: Let_def del: exp_loop.simps)
qed

lemma et_loop_failure:
  "list_all (\<lambda>rt. non_terminal (fst rt)) pre \<Longrightarrow>
   et_loop cfg (pre @ (Inl e, now) # rts)
     = \<lparr>outcome = Some (Rejected e), waits = waits (et_loop cfg pre),
        checks = Suc (length pre)\<rparr>"
proof (induction pre)
  case Nil
  show ?case by (simp add: et_poll_def)
next
  case (Cons rt pre)
  obtain r t where rt: "rt = (r, t)" by (cases rt)
  from Cons.prems rt have nt: "non_terminal r"
    and rest: "list_all (\<lambda>rt. non_terminal (fst rt)) pre" by simp_all
  show ?case
    using Cons.IH [OF rest] et_loop_non_terminal [OF nt, of cfg t]
    by (simp add: rt Let_def del: et_loop.simps)
qed

text \<open>
  Claim C5. In either strategy, a poll cycle whose status check throws rejects the promise
  with exactly the thrown error. After any number of non-terminal cycles the run then ends:
  the outcome is that rejection, the timers armed are those of the earlier cycles only, and
  the failing check is the last one made, whatever results would have followed.
\<close>

theorem check_failure_propagates:
  "exp_poll stable_interval interval (Inl e) = (Settle (Rejected e), interval)
   \<and> et_poll cfg (Inl e, now) = Settle (Rejected e)
   \<and> (list_all non_terminal pre \<longrightarrow>
        exp_loop stable_interval interval (pre @ Inl e # rs)
          = \<lparr>outcome = Some (Rejected e),
             waits = waits (exp_loop stable_interval interval pre),
             checks = Suc (length pre)\<rparr>)
   \<and> (list_all (\<lambda>rt. non_terminal (fst rt)) pre' \<longrightarrow>
        et_loop cfg (pre' @ (Inl e, now) # rts)
          = \<lparr>outcome = Some (Rejected e),
             waits = waits (et_loop cfg pre'),
             checks = Suc (length pre')\<rparr>)"
  by (simp add: exp_poll_def et_poll_def exp_loop_failure et_loop_failure)

theorem check_failure_propagates_witness:
  "exp_loop 8000 1000 [Inr ''pending'', Inl (Error ''Network Error''), Inr ''completed'']
     = \<lparr>outcome = Some (Rejected (Error ''Network Error'')), waits = [1000], checks = 2\<rparr>
   \<and> et_loop \<lparr>cfg_expected = 30000,
              cfg_coefficients = \<lparr>coef_a = 1 / 30000, coef_b = 0.01, coef_c = 500\<rparr>,
              cfg_minimum = 500, cfg_maximum = 3000, cfg_start = 0\<rparr>
        [(Inr ''pending'', 0), (Inl (Error ''Network Error''), 1), (Inr ''completed'', 2)]
     = \<lparr>outcome = Some (Rejected (Error ''Network Error'')), waits = [3000], checks = 2\<rparr>"
proof -
  have h: "list_all non_terminal [Inr ''pending'']"
    by (simp add: non_terminal_def)
  have h': "list_all (\<lambda>rt. non_terminal (fst rt)) [(Inr ''pending'', 0 :: real)]"
    by (simp add: non_terminal_def)
  show ?thesis
    using check_failure_propagates [of 8000 1000 "Error ''Network Error''"
        "\<lparr>cfg_expected = 30000,
          cfg_coefficients = \<lparr>coef_a = 1 / 30000, coef_b = 0.01, coef_c = 500\<rparr>,
          cfg_minimum = 500, cfg_maximum = 3000, cfg_start = 0\<rparr>" 1
        "[Inr ''pending'']" "[Inr ''completed'']" "[(Inr ''pending'', 0)]"
        "[(Inr ''completed'', 2)]"] h h'
    by (simp add: exp_poll_def et_poll_def non_terminal_def et_interval_def et_raw_def)
qed

text \<open>
  Claim C10. \<open>expectedTimeStrategy\<close> rejects with the configuration error
  \<open>Expected completion time must be provided.\<close> whenever \<open>expectedCompletionTime\<close> is
  falsy: when it is absent and also when it is \<open>0\<close>. It does so before any status check:
  no result of the client is read and no timer is armed.
\<close>

theorem config_error_on_falsy:
  assumes "expectedCompletionTime options = None \<or> expectedCompletionTime options = Some 0"
  shows "expectedTimeStrategy options callTime rts
     = \<lparr>outcome = Some (Rejected (Error ''Expected completion time must be provided.'')),
        waits = [], checks = 0\<rparr>"
  using assms by (auto simp: expectedTimeStrategy_def Let_def)

theorem config_error_on_falsy_witness:
  "expectedTimeStrategy
      \<lparr>expectedCompletionTime = Some 0, coefficients = None, minimumInterval = None,
       maximumInterval = None, jobStartTime = None\<rparr> 0 [(Inr ''completed'', 0)]
     = \<lparr>outcome = Some (Rejected (Error ''Expected completion time must be provided.'')),
        waits = [], checks = 0\<rparr>"
  using config_error_on_falsy [of "\<lparr>expectedCompletionTime = Some 0, coefficients = None,
       minimumInterval = None, maximumInterval = None, jobStartTime = None\<rparr>" 0
       "[(Inr ''completed'', 0)]"]
  by simp

section \<open>Properties of the server\<close>

lemmas js_ops = draw_status_def draw_delay_def load_config_def env_or_def js_add_def
  js_mul_def js_sub_def js_gt_def num_add_def num_sub_def num_mul_def num_neg_def ToNumber_def
  ToString_def Math_floor_def string_to_number_def unsigned_decimal_def is_digit_def
  digits_to_nat_def number_to_string_def nat_to_digits.simps digit_char_def

subsection \<open>The store under requests\<close>

lemma get_status_own:
  assumes "vs videoID = Some v" "videoID \<noteq> []"
  shows "get_status vs (Some videoID) now =
     (let v' = (if js_ge (Num (now - startTime v)) (delay v) \<and> status v = ''pending''
                then v\<lparr>status := ''completed''\<rparr> else v)
      in (StatusResult (Some (status v')), vs(videoID \<mapsto> v')))"
  using assms by (simp add: get_status_def videos_get_def Let_def)

lemma post_create_keeps:
  assumes "vs videoID = Some v"
  shows "snd (post_create fmt cfg vs body r1 r2 now) videoID = Some v"
  using assms
  by (auto simp: post_create_def videos_get_def Let_def split: option.splits)

lemma get_status_keeps:
  assumes "vs videoID = Some v" "status v \<noteq> ''pending''"
  shows "snd (get_status vs query now) videoID = Some v"
  using assms
  by (auto simp: get_status_def videos_get_def Let_def split: option.splits property.splits)

lemma handle_keeps:
  assumes "vs videoID = Some v" "status v \<noteq> ''pending''"
  shows "snd (handle fmt cfg vs q) videoID = Some v"
  using assms by (cases q) (simp_all add: post_create_keeps get_status_keeps)

lemma serve_keeps:
  assumes "vs videoID = Some v" "status v \<noteq> ''pending''"
  shows "snd (serve fmt cfg vs qs) videoID = Some v"
  using assms
proof (induction qs arbitrary: vs)
  case Nil
  then show ?case by simp
next
  case (Cons q qs)
  have "snd (handle fmt cfg vs q) videoID = Some v"
    using Cons.prems by (rule handle_keeps)
  then have "snd (serve fmt cfg (snd (handle fmt cfg vs q)) qs) videoID = Some v"
    using Cons.prems(2) by (rule Cons.IH)
  then show ?case
    by (simp add: split_beta Let_def)
qed

lemma handle_no_empty:
  assumes "vs [] = None"
  shows "snd (handle fmt cfg vs q) [] = None"
  using assms
  by (cases q)
     (auto simp: post_create_def get_status_def videos_get_def Let_def
           split: option.splits property.splits if_splits)

lemma reachable_no_empty:
  "reachable fmt cfg vs \<Longrightarrow> vs [] = None"
proof (induction rule: reachable.induct)
  case initial
  show ?case by simp
next
  case (request vs q r vs')
  then show ?case using handle_no_empty [of vs fmt cfg q] by simp
qed

lemma post_create_duplicate:
  assumes "vs videoID = Some v" "videoID \<noteq> []"
  shows "post_create fmt cfg vs (Some videoID) random1 random2 now
     = (BadRequest (duplicate_message videoID), vs)"
  using assms by (simp add: post_create_def videos_get_def Let_def)

text \<open>
  Claim C8. In every store the server can reach, a \<open>POST /create\<close> whose \<open>videoID\<close> is
  already a key of \<open>videos\<close> is answered with status 400 and the duplicate-id message, for
  every pair of random draws and every clock reading, and the store after the call is the
  store before it: the job under that id keeps its \<open>startTime\<close>, \<open>delay\<close> and
  \<open>status\<close>, and no entry is added or removed.
\<close>

theorem duplicate_create_rejected:
  assumes "reachable fmt cfg vs" "vs videoID = Some v"
  shows "post_create fmt cfg vs (Some videoID) random1 random2 now
     = (BadRequest (duplicate_message videoID), vs)"
proof -
  have "videoID \<noteq> []"
    using reachable_no_empty [OF assms(1)] assms(2) by auto
  with assms(2) show ?thesis by (rule post_create_duplicate)
qed

theorem duplicate_create_rejected_witness:
  "post_create (\<lambda>x. []) (load_config \<lparr>env_MIN_DELAY = None, env_MAX_DELAY = None, env_ERROR_RATE = None\<rparr>)
      [''dup'' \<mapsto> \<lparr>startTime = 0, delay = Num 27500, status = ''pending''\<rparr>]
      (Some ''dup'') 0 0 1
     = (BadRequest (duplicate_message ''dup''),
        [''dup'' \<mapsto> \<lparr>startTime = 0, delay = Num 27500, status = ''pending''\<rparr>])"
proof -
  let ?cfg = "load_config \<lparr>env_MIN_DELAY = None, env_MAX_DELAY = None, env_ERROR_RATE = None\<rparr>"
  let ?vs = "[''dup'' \<mapsto> \<lparr>startTime = 0, delay = Num 27500, status = ''pending''\<rparr>]"
  have "handle (\<lambda>x. []) ?cfg Map.empty (PostCreate (Some ''dup'') (1/2) (1/2) 0)
      = (Created ''dup'' (created_message ''dup''), ?vs)"
    by (simp add: post_create_def videos_get_def Object_prototype_def draw_status_def
        draw_delay_def load_config_def env_or_def js_add_def js_mul_def js_sub_def js_gt_def
        num_add_def num_sub_def num_mul_def ToNumber_def Math_floor_def)
  with reachable.initial have r: "reachable (\<lambda>x. []) ?cfg ?vs"
    by (rule reachable.request)
  have p: "?vs ''dup'' = Some \<lparr>startTime = 0, delay = Num 27500, status = ''pending''\<rparr>"
    by simp
  show ?thesis
    by (rule duplicate_create_rejected [OF r p])
qed

lemma due_check_status_update:
  "due_check videoID (v\<lparr>status := x\<rparr>) = due_check videoID v"
  by (rule ext) (simp add: due_check_def split: request.splits option.splits)

lemma polled_when_due_status_update:
  "polled_when_due videoID (v\<lparr>status := x\<rparr>) qs = polled_when_due videoID v qs"
  by (simp add: polled_when_due_def due_check_status_update)

lemma handle_job:
  assumes "vs videoID = Some v" "videoID \<noteq> []"
  shows "snd (handle fmt cfg vs q) videoID
     = Some (if status v = ''pending'' \<and> due_check videoID v q
             then v\<lparr>status := ''completed''\<rparr> else v)"
proof (cases q)
  case (PostCreate body r1 r2 now)
  then show ?thesis
    using post_create_keeps [of vs videoID v fmt cfg body r1 r2 now, OF assms(1)]
    by (simp add: due_check_def)
next
  case (GetStatus query now)
  show ?thesis
  proof (cases "query = Some videoID")
    case True
    then show ?thesis
      using get_status_own [of vs videoID v now, OF assms]
      by (simp add: GetStatus due_check_def Let_def)
  next
    case False
    then have "snd (get_status vs query now) videoID = Some v"
      using assms(1)
      by (auto simp: get_status_def videos_get_def Let_def
               split: option.splits property.splits)
    with False show ?thesis
      by (auto simp: GetStatus due_check_def split: option.splits)
  qed
qed

lemma serve_job:
  assumes "vs videoID = Some v" "videoID \<noteq> []"
  shows "snd (serve fmt cfg vs qs) videoID
     = Some (if status v = ''pending'' \<and> polled_when_due videoID v qs
             then v\<lparr>status := ''completed''\<rparr> else v)"
  using assms(1)
proof (induction qs arbitrary: vs v)
  case Nil
  then show ?case by (simp add: polled_when_due_def)
next
  case (Cons q qs)
  define v1 where "v1 = (if status v = ''pending'' \<and> due_check videoID v q
                         then v\<lparr>status := ''completed''\<rparr> else v)"
  have h: "snd (handle fmt cfg vs q) videoID = Some v1"
    unfolding v1_def by (rule handle_job [of vs videoID v, OF Cons.prems assms(2)])
  have s: "snd (serve fmt cfg (snd (handle fmt cfg vs q)) qs) videoID
      = Some (if status v1 = ''pending'' \<and> polled_when_due videoID v1 qs
              then v1\<lparr>status := ''completed''\<rparr> else v1)"
    by (rule Cons.IH [of "snd (handle fmt cfg vs q)" v1, OF h])
  have p: "polled_when_due videoID v1 qs = polled_when_due videoID v qs"
    by (simp add: v1_def polled_when_due_status_update)
  have "snd (serve fmt cfg vs (q # qs)) videoID
      = snd (serve fmt cfg (snd (handle fmt cfg vs q)) qs) videoID"
    by (simp add: split_beta Let_def)
  also have "\<dots> = Some (if status v = ''pending'' \<and> polled_when_due videoID v (q # qs)
                         then v\<lparr>status := ''completed''\<rparr> else v)"
    unfolding s p by (auto simp: v1_def polled_when_due_def)
  finally show ?case .
qed

lemma js_ge_later:
  assumes "js_ge (Num (t - s)) d" "t \<le> now"
  shows "js_ge (Num (now - s)) d"
  using assms by (cases d) (simp_all add: js_ge_def)

lemma polled_when_due_earlier:
  assumes "polled_when_due videoID v qs" "list_all (\<lambda>q. request_time q \<le> now) qs"
  shows "js_ge (Num (now - startTime v)) (delay v)"
proof -
  from assms(1) obtain q where q: "q \<in> set qs" "due_check videoID v q"
    by (auto simp: polled_when_due_def list_ex_iff)
  from q(2) obtain i t where qt: "q = GetStatus (Some i) t"
    and due: "js_ge (Num (t - startTime v)) (delay v)"
    by (auto simp: due_check_def split: request.splits option.splits)
  from assms(2) q(1) qt have "t \<le> now"
    by (auto simp: list_all_iff)
  with due show ?thesis by (rule js_ge_later)
qed

text \<open>
  Claim C6. For a job \<open>v\<close> stored under \<open>videoID\<close> in a store the server can reach:
  if its status is \<open>error\<close>, then after every sequence of requests it is still stored
  with status \<open>error\<close> and every status check for it answers \<open>error\<close>;
  if its status is \<open>pending\<close>, a status check at time \<open>now\<close> answers \<open>completed\<close>
  when \<open>now - startTime >= delay\<close> and \<open>pending\<close> otherwise;
  and once a status check for it has answered \<open>completed\<close>, every status check for it
  after any further sequence of requests, at any clock reading, answers \<open>completed\<close>.
  Over sequences of requests: after every sequence of create and status requests the job
  is stored as it was, with the same \<open>startTime\<close> and \<open>delay\<close>, its status turned to
  \<open>completed\<close> exactly when it was \<open>pending\<close> and the sequence held a status check for it
  at a time when it was due. So a status check that follows any sequence of requests
  answers \<open>completed\<close> for a pending job exactly when the job is due at that check or was
  due at an earlier check for it; when no request of the sequence has a clock reading
  after that of the check, that is exactly when \<open>now - startTime >= delay\<close>, with the
  \<open>startTime\<close> and \<open>delay\<close> the job was created with.
\<close>

theorem job_status_lifecycle:
  assumes "reachable fmt cfg vs" "vs videoID = Some v"
  shows "(status v = ''error'' \<longrightarrow>
            (\<forall>qs. \<exists>v'. snd (serve fmt cfg vs qs) videoID = Some v' \<and> status v' = ''error'')
          \<and> (\<forall>qs now. fst (get_status (snd (serve fmt cfg vs qs)) (Some videoID) now)
                          = StatusResult (Some ''error'')))
       \<and> (status v = ''pending'' \<longrightarrow>
            (\<forall>now. fst (get_status vs (Some videoID) now)
                     = StatusResult (Some (if js_ge (Num (now - startTime v)) (delay v)
                                           then ''completed'' else ''pending''))))
       \<and> (\<forall>now. fst (get_status vs (Some videoID) now) = StatusResult (Some ''completed'')
            \<longrightarrow> (\<forall>qs now'.
                   fst (get_status
                          (snd (serve fmt cfg (snd (get_status vs (Some videoID) now)) qs))
                          (Some videoID) now')
                     = StatusResult (Some ''completed'')))
       \<and> (\<forall>qs. snd (serve fmt cfg vs qs) videoID
                 = Some (if status v = ''pending'' \<and> polled_when_due videoID v qs
                         then v\<lparr>status := ''completed''\<rparr> else v))
       \<and> (status v = ''pending'' \<longrightarrow>
            (\<forall>qs now. fst (get_status (snd (serve fmt cfg vs qs)) (Some videoID) now)
                        = StatusResult
                            (Some (if js_ge (Num (now - startTime v)) (delay v)
                                      \<or> polled_when_due videoID v qs
                                   then ''completed'' else ''pending''))))
       \<and> (status v = ''pending'' \<longrightarrow>
            (\<forall>qs now. list_all (\<lambda>q. request_time q \<le> now) qs \<longrightarrow>
                      fst (get_status (snd (serve fmt cfg vs qs)) (Some videoID) now)
                        = StatusResult
                            (Some (if js_ge (Num (now - startTime v)) (delay v)
                                   then ''completed'' else ''pending''))))"
proof -
  have ne: "videoID \<noteq> []"
    using reachable_no_empty [OF assms(1)] assms(2) by auto
  have stable: "fst (get_status (snd (serve fmt cfg ws qs)) (Some videoID) t)
      = StatusResult (Some (status w))"
    if "ws videoID = Some w" "status w \<noteq> ''pending''" for ws w qs t
  proof -
    have "snd (serve fmt cfg ws qs) videoID = Some w"
      using that by (rule serve_keeps)
    then show ?thesis
      using that(2) by (simp add: get_status_own [OF _ ne] Let_def)
  qed
  have err: "(\<forall>qs. \<exists>v'. snd (serve fmt cfg vs qs) videoID = Some v' \<and> status v' = ''error'')
      \<and> (\<forall>qs now. fst (get_status (snd (serve fmt cfg vs qs)) (Some videoID) now)
                     = StatusResult (Some ''error''))"
    if "status v = ''error''"
  proof -
    have np: "status v \<noteq> ''pending''" using that by simp
    show ?thesis
      using serve_keeps [of vs videoID v, OF assms(2) np] stable [of vs v, OF assms(2) np] that
      by simp
  qed
  have pend: "fst (get_status vs (Some videoID) now)
      = StatusResult (Some (if js_ge (Num (now - startTime v)) (delay v)
                            then ''completed'' else ''pending''))"
    if "status v = ''pending''" for now
    using that by (simp add: get_status_own [of vs videoID v, OF assms(2) ne] Let_def)
  have later: "fst (get_status
                  (snd (serve fmt cfg (snd (get_status vs (Some videoID) now)) qs))
                  (Some videoID) now')
      = StatusResult (Some ''completed'')"
    if c: "fst (get_status vs (Some videoID) now) = StatusResult (Some ''completed'')"
    for now qs now'
  proof -
    define w where "w = (if js_ge (Num (now - startTime v)) (delay v) \<and> status v = ''pending''
                         then v\<lparr>status := ''completed''\<rparr> else v)"
    have g: "get_status vs (Some videoID) now = (StatusResult (Some (status w)), vs(videoID \<mapsto> w))"
      by (simp add: get_status_own [of vs videoID v, OF assms(2) ne] Let_def w_def)
    from c g have sw: "status w = ''completed''" by simp
    then have np: "status w \<noteq> ''pending''" by simp
    have "snd (get_status vs (Some videoID) now) videoID = Some w"
      using g by simp
    from stable [of "snd (get_status vs (Some videoID) now)" w, OF this np] sw
    show ?thesis by simp
  qed
  have job: "snd (serve fmt cfg vs qs) videoID
      = Some (if status v = ''pending'' \<and> polled_when_due videoID v qs
              then v\<lparr>status := ''completed''\<rparr> else v)" for qs
    by (rule serve_job [of vs videoID v, OF assms(2) ne])
  have after: "fst (get_status (snd (serve fmt cfg vs qs)) (Some videoID) now)
      = StatusResult (Some (if js_ge (Num (now - startTime v)) (delay v)
                               \<or> polled_when_due videoID v qs
                            then ''completed'' else ''pending''))"
    if "status v = ''pending''" for qs now
  proof -
    define w where "w = (if status v = ''pending'' \<and> polled_when_due videoID v qs
                         then v\<lparr>status := ''completed''\<rparr> else v)"
    have "snd (serve fmt cfg vs qs) videoID = Some w"
      unfolding w_def by (rule job)
    from get_status_own [of "snd (serve fmt cfg vs qs)" videoID w now, OF this ne]
    show ?thesis
      using that by (auto simp: Let_def w_def)
  qed
  have ordered: "fst (get_status (snd (serve fmt cfg vs qs)) (Some videoID) now)
      = StatusResult (Some (if js_ge (Num (now - startTime v)) (delay v)
                            then ''completed'' else ''pending''))"
    if p: "status v = ''pending''" and t: "list_all (\<lambda>q. request_time q \<le> now) qs"
    for qs now
  proof -
    have "js_ge (Num (now - startTime v)) (delay v)" if "polled_when_due videoID v qs"
      using that t by (rule polled_when_due_earlier)
    then show ?thesis
      using after [OF p, of qs now] by auto
  qed
  from err pend later job after ordered show ?thesis by blast
qed

theorem job_status_lifecycle_witness:
  "fst (get_status [''e1'' \<mapsto> \<lparr>startTime = 0, delay = Num 27500, status = ''error''\<rparr>,
                    ''t1'' \<mapsto> \<lparr>startTime = 0, delay = Num 27500, status = ''pending''\<rparr>]
          (Some ''e1'') 99999) = StatusResult (Some ''error'')
   \<and> fst (get_status [''e1'' \<mapsto> \<lparr>startTime = 0, delay = Num 27500, status = ''error''\<rparr>,
                      ''t1'' \<mapsto> \<lparr>startTime = 0, delay = Num 27500, status = ''pending''\<rparr>]
          (Some ''t1'') 27499) = StatusResult (Some ''pending'')
   \<and> fst (get_status [''e1'' \<mapsto> \<lparr>startTime = 0, delay = Num 27500, status = ''error''\<rparr>,
                      ''t1'' \<mapsto> \<lparr>startTime = 0, delay = Num 27500, status = ''pending''\<rparr>]
          (Some ''t1'') 27500) = StatusResult (Some ''completed'')
   \<and> fst (get_status
            (snd (get_status
                    [''e1'' \<mapsto> \<lparr>startTime = 0, delay = Num 27500, status = ''error''\<rparr>,
                     ''t1'' \<mapsto> \<lparr>startTime = 0, delay = Num 27500, status = ''pending''\<rparr>]
                    (Some ''t1'') 27500))
            (Some ''t1'') 0) = StatusResult (Some ''completed'')
   \<and> snd (serve (\<lambda>x. [])
            (load_config \<lparr>env_MIN_DELAY = None, env_MAX_DELAY = None, env_ERROR_RATE = None\<rparr>)
            [''e1'' \<mapsto> \<lparr>startTime = 0, delay = Num 27500, status = ''error''\<rparr>,
             ''t1'' \<mapsto> \<lparr>startTime = 0, delay = Num 27500, status = ''pending''\<rparr>]
            [GetStatus (Some ''t1'') 100, GetStatus (Some ''e1'') 200,
             PostCreate (Some ''t1'') 0 0 300]) ''t1''
       = Some \<lparr>startTime = 0, delay = Num 27500, status = ''pending''\<rparr>
   \<and> fst (get_status
            (snd (serve (\<lambda>x. [])
               (load_config \<lparr>env_MIN_DELAY = None, env_MAX_DELAY = None, env_ERROR_RATE = None\<rparr>)
               [''e1'' \<mapsto> \<lparr>startTime = 0, delay = Num 27500, status = ''error''\<rparr>,
                ''t1'' \<mapsto> \<lparr>startTime = 0, delay = Num 27500, status = ''pending''\<rparr>]
               [GetStatus (Some ''t1'') 100, GetStatus (Some ''e1'') 200,
                PostCreate (Some ''t1'') 0 0 300]))
            (Some ''t1'') 27499) = StatusResult (Some ''pending'')
   \<and> fst (get_status
            (snd (serve (\<lambda>x. [])
               (load_config \<lparr>env_MIN_DELAY = None, env_MAX_DELAY = None, env_ERROR_RATE = None\<rparr>)
               [''e1'' \<mapsto> \<lparr>startTime = 0, delay = Num 27500, status = ''error''\<rparr>,
                ''t1'' \<mapsto> \<lparr>startTime = 0, delay = Num 27500, status = ''pending''\<rparr>]
               [GetStatus (Some ''t1'') 100, GetStatus (Some ''e1'') 200,
                PostCreate (Some ''t1'') 0 0 300]))
            (Some ''t1'') 27500) = StatusResult (Some ''completed'')"
proof -
  let ?cfg = "load_config \<lparr>env_MIN_DELAY = None, env_MAX_DELAY = None, env_ERROR_RATE = None\<rparr>"
  let ?e = "\<lparr>startTime = 0, delay = Num 27500, status = ''error''\<rparr>"
  let ?p = "\<lparr>startTime = 0, delay = Num 27500, status = ''pending''\<rparr>"
  let ?vs1 = "[''e1'' \<mapsto> ?e]"
  let ?vs2 = "[''e1'' \<mapsto> ?e, ''t1'' \<mapsto> ?p]"
  let ?qs = "[GetStatus (Some ''t1'') 100, GetStatus (Some ''e1'') 200,
              PostCreate (Some ''t1'') 0 0 300]"
  have "handle (\<lambda>x. []) ?cfg Map.empty (PostCreate (Some ''e1'') (1/2) 0 0)
      = (Created ''e1'' (created_message ''e1''), ?vs1)"
    by (simp add: post_create_def videos_get_def Object_prototype_def draw_status_def
        draw_delay_def load_config_def env_or_def js_add_def js_mul_def js_sub_def js_gt_def
        num_add_def num_sub_def num_mul_def ToNumber_def Math_floor_def)
  with reachable.initial have r1: "reachable (\<lambda>x. []) ?cfg ?vs1"
    by (rule reachable.request)
  have "handle (\<lambda>x. []) ?cfg ?vs1 (PostCreate (Some ''t1'') (1/2) (1/2) 0)
      = (Created ''t1'' (created_message ''t1''), ?vs2)"
    by (simp add: post_create_def videos_get_def Object_prototype_def draw_status_def
        draw_delay_def load_config_def env_or_def js_add_def js_mul_def js_sub_def js_gt_def
        num_add_def num_sub_def num_mul_def ToNumber_def Math_floor_def)
  with r1 have r2: "reachable (\<lambda>x. []) ?cfg ?vs2"
    by (rule reachable.request)
  have e: "?vs2 ''e1'' = Some ?e" and p: "?vs2 ''t1'' = Some ?p"
    by simp_all
  note le = job_status_lifecycle [of "\<lambda>x. []" ?cfg ?vs2 "''e1''" ?e, OF r2 e]
  note lp = job_status_lifecycle [of "\<lambda>x. []" ?cfg ?vs2 "''t1''" ?p, OF r2 p]
  from le have "\<forall>qs now. fst (get_status (snd (serve (\<lambda>x. []) ?cfg ?vs2 qs)) (Some ''e1'') now)
      = StatusResult (Some ''error'')"
    by simp
  from this [rule_format, of "[]" 99999]
  have a: "fst (get_status ?vs2 (Some ''e1'') 99999) = StatusResult (Some ''error'')"
    by simp
  from lp have pend: "\<forall>now. fst (get_status ?vs2 (Some ''t1'') now)
      = StatusResult (Some (if js_ge (Num (now - 0)) (Num 27500)
                            then ''completed'' else ''pending''))"
    by simp
  from pend [rule_format, of 27499]
  have b: "fst (get_status ?vs2 (Some ''t1'') 27499) = StatusResult (Some ''pending'')"
    by (simp add: js_ge_def)
  from pend [rule_format, of 27500]
  have c: "fst (get_status ?vs2 (Some ''t1'') 27500) = StatusResult (Some ''completed'')"
    by (simp add: js_ge_def)
  from lp have "\<forall>now. fst (get_status ?vs2 (Some ''t1'') now) = StatusResult (Some ''completed'')
      \<longrightarrow> (\<forall>qs now'.
             fst (get_status
                    (snd (serve (\<lambda>x. []) ?cfg (snd (get_status ?vs2 (Some ''t1'') now)) qs))
                    (Some ''t1'') now')
               = StatusResult (Some ''completed''))"
    by blast
  from this [rule_format, OF c, of "[]" 0]
  have d: "fst (get_status (snd (get_status ?vs2 (Some ''t1'') 27500)) (Some ''t1'') 0)
      = StatusResult (Some ''completed'')"
    by simp
  have sp: "status ?p = ''pending''" by simp
  from lp have "\<forall>qs. snd (serve (\<lambda>x. []) ?cfg ?vs2 qs) ''t1''
      = Some (if status ?p = ''pending'' \<and> polled_when_due ''t1'' ?p qs
              then ?p\<lparr>status := ''completed''\<rparr> else ?p)"
    by blast
  from this [rule_format, of ?qs]
  have f: "snd (serve (\<lambda>x. []) ?cfg ?vs2 ?qs) ''t1'' = Some ?p"
    by (simp add: polled_when_due_def due_check_def js_ge_def)
  from lp have ord: "\<forall>qs now. list_all (\<lambda>q. request_time q \<le> now) qs \<longrightarrow>
      fst (get_status (snd (serve (\<lambda>x. []) ?cfg ?vs2 qs)) (Some ''t1'') now)
        = StatusResult (Some (if js_ge (Num (now - startTime ?p)) (delay ?p)
                              then ''completed'' else ''pending''))"
    using sp by blast
  have t1: "list_all (\<lambda>q. request_time q \<le> 27499) ?qs"
    and t2: "list_all (\<lambda>q. request_time q \<le> 27500) ?qs"
    by simp_all
  from ord [rule_format, OF t1]
  have g: "fst (get_status (snd (serve (\<lambda>x. []) ?cfg ?vs2 ?qs)) (Some ''t1'') 27499)
      = StatusResult (Some ''pending'')"
    by (simp add: js_ge_def)
  from ord [rule_format, OF t2]
  have h: "fst (get_status (snd (serve (\<lambda>x. []) ?cfg ?vs2 ?qs)) (Some ''t1'') 27500)
      = StatusResult (Some ''completed'')"
    by (simp add: js_ge_def)
  from a b c d f g h show ?thesis by blast
qed

subsection \<open>The random draws of \<open>POST /create\<close>\<close>

text \<open>
  Claim C7 fails on the code at the draw \<open>0\<close>. With \<open>ERROR_RATE=0\<close> in the environment
  the constant is the string \<open>"0"\<close>; \<open>Math.random() > "0"\<close> compares numbers, and for the
  draw \<open>0\<close> (a value \<open>Math.random()\<close> can return) it is false. The job is created with
  status \<open>error\<close>, and its status checks answer \<open>error\<close>, not \<open>completed\<close>.
\<close>

theorem zero_error_rate_zero_draw:
  "post_create fmt
      (load_config \<lparr>env_MIN_DELAY = None, env_MAX_DELAY = None, env_ERROR_RATE = Some ''0''\<rparr>)
      Map.empty (Some ''t1'') 0 0 0
     = (Created ''t1'' (created_message ''t1''),
        [''t1'' \<mapsto> \<lparr>startTime = 0, delay = Num 5000, status = ''error''\<rparr>])
   \<and> fst (get_status [''t1'' \<mapsto> \<lparr>startTime = 0, delay = Num 5000, status = ''error''\<rparr>]
          (Some ''t1'') 5000) = StatusResult (Some ''error'')"
  by (simp add: post_create_def get_status_def videos_get_def Object_prototype_def js_ops)

text \<open>For every other draw the job is created \<open>pending\<close>: with an error rate of zero, a
  positive value of \<open>Math.random()\<close> is greater than it.\<close>

lemma zero_error_rate_positive_draw:
  assumes "ERROR_RATE cfg = JStr ''0'' \<or> ERROR_RATE cfg = JNum (Num 0)" "0 < random"
  shows "draw_status cfg random = ''pending''"
  using assms by (auto simp: js_ops)

theorem zero_error_rate_positive_draw_witness:
  "draw_status
      (load_config \<lparr>env_MIN_DELAY = None, env_MAX_DELAY = None, env_ERROR_RATE = Some ''0''\<rparr>)
      (1 / 2) = ''pending''"
  using zero_error_rate_positive_draw [of
      "load_config \<lparr>env_MIN_DELAY = None, env_MAX_DELAY = None, env_ERROR_RATE = Some ''0''\<rparr>"
      "1 / 2"]
  by (simp add: load_config_def env_or_def)

text \<open>
  Claim C9 fails on the code when \<open>MIN_DELAY\<close> comes from the environment. The constant is
  then a string, and in \<open>Math.random() * (MAX_DELAY - MIN_DELAY + 1) + MIN_DELAY\<close> the
  last \<open>+\<close> concatenates: with \<open>MIN_DELAY=1000\<close>, \<open>MAX_DELAY=1999\<close> and the draw \<open>0.5\<close>
  the product is \<open>500\<close>, the sum is the string \<open>"5001000"\<close>, and the job's delay is
  \<open>5001000\<close>, outside \<open>[1000, 1999]\<close>.
\<close>

theorem string_min_delay_out_of_range:
  "post_create fmt
      (load_config \<lparr>env_MIN_DELAY = Some ''1000'', env_MAX_DELAY = Some ''1999'',
                    env_ERROR_RATE = None\<rparr>)
      Map.empty (Some ''t1'') (1 / 2) (1 / 2) 0
     = (Created ''t1'' (created_message ''t1''),
        [''t1'' \<mapsto> \<lparr>startTime = 0, delay = Num 5001000, status = ''pending''\<rparr>])"
  by (simp add: post_create_def videos_get_def Object_prototype_def js_ops)

text \<open>
  When both constants are numbers (as the defaults \<open>5000\<close> and \<open>50000\<close> are), integers
  with \<open>MIN_DELAY \<le> MAX_DELAY\<close>, every draw in \<open>[0, 1)\<close> gives an integer delay in
  \<open>[MIN_DELAY, MAX_DELAY]\<close>.
\<close>

lemma numeric_delay_in_range:
  assumes "MIN_DELAY cfg = JNum (Num lo)" "MAX_DELAY cfg = JNum (Num hi)"
    and "lo \<in> \<int>" "hi \<in> \<int>" "lo \<le> hi" "0 \<le> random" "random < 1"
  shows "\<exists>d. draw_delay fmt cfg random = Num d \<and> d \<in> \<int> \<and> lo \<le> d \<and> d \<le> hi"
proof -
  define x where "x = random * (hi - lo + 1) + lo"
  obtain k m :: int where lo: "lo = of_int k" and hi: "hi = of_int m"
    using assms(3,4) by (auto elim!: Ints_cases)
  have d: "draw_delay fmt cfg random = Num (of_int \<lfloor>x\<rfloor>)"
    using assms(1,2) by (simp add: js_ops x_def)
  have "0 \<le> random * (hi - lo + 1)"
    using assms(5,6) by simp
  then have "lo \<le> x" by (simp add: x_def)
  then have lower: "k \<le> \<lfloor>x\<rfloor>"
    by (simp add: lo le_floor_iff)
  have "random * (hi - lo + 1) < 1 * (hi - lo + 1)"
    using assms(5,7) by (intro mult_strict_right_mono) simp_all
  then have "x < of_int (m + 1)" by (simp add: x_def hi)
  then have "\<lfloor>x\<rfloor> < m + 1"
    by (simp only: floor_less_iff)
  then have upper: "\<lfloor>x\<rfloor> \<le> m" by simp
  from lower upper show ?thesis
    by (simp add: d lo hi)
qed

theorem numeric_delay_in_range_witness:
  "\<exists>d. draw_delay (\<lambda>x. [])
          (load_config \<lparr>env_MIN_DELAY = None, env_MAX_DELAY = None, env_ERROR_RATE = None\<rparr>)
          (1 / 2) = Num d
       \<and> d \<in> \<int> \<and> 5000 \<le> d \<and> d \<le> 50000"
  using numeric_delay_in_range [of
      "load_config \<lparr>env_MIN_DELAY = None, env_MAX_DELAY = None, env_ERROR_RATE = None\<rparr>"
      5000 50000 "1 / 2" "\<lambda>x. []"]
  by (simp add: load_config_def env_or_def)

end
